theory Spec2Isabelle
  imports Complex_Main "HOL-Library.AList"
begin

section \<open>Python values\<close>

text \<open>
  The session manager stores whatever \<open>json.load\<close> hands it, so the fields it
  assigns from a file are dynamically typed. A Python value is \<open>None\<close>, a bool, an
  int, a str, a list or a dict; a dict is an insertion-ordered list of entries whose keys
  are pairwise unequal. JSON numbers are modelled as integers.
\<close>

datatype pyval =
    PNone
  | PBool bool
  | PInt int
  | PStr string
  | PList "pyval list"
  | PDict "(pyval \<times> pyval) list"

datatype py_error =
  AttributeError | TypeError | KeyError | IndexError | ValueError | ImportError | OSError

text \<open>\<open>bool(v)\<close>: the truth value Python's \<open>if v:\<close> tests.\<close>

fun truthy :: "pyval \<Rightarrow> bool" where
  "truthy PNone = False"
| "truthy (PBool b) = b"
| "truthy (PInt n) = (n \<noteq> 0)"
| "truthy (PStr s) = (s \<noteq> [])"
| "truthy (PList xs) = (xs \<noteq> [])"
| "truthy (PDict d) = (d \<noteq> [])"

text \<open>Lists and dicts are unhashable: using one as a dict key raises \<open>TypeError\<close>.\<close>

fun hashable :: "pyval \<Rightarrow> bool" where
  "hashable (PList xs) = False"
| "hashable (PDict d) = False"
| "hashable v = True"

text \<open>
  \<open>a == b\<close>. \<open>True == 1\<close> and \<open>False == 0\<close> hold in Python, so bools and ints are
  compared as numbers; a key is normalised accordingly before it is compared.
\<close>

fun key_norm :: "pyval \<Rightarrow> pyval" where
  "key_norm (PBool b) = PInt (if b then 1 else 0)"
| "key_norm v = v"

definition key_eq :: "pyval \<Rightarrow> pyval \<Rightarrow> bool" where
  "key_eq a b = (key_norm a = key_norm b)"

fun dict_lookup :: "(pyval \<times> pyval) list \<Rightarrow> pyval \<Rightarrow> pyval option" where
  "dict_lookup [] k = None"
| "dict_lookup ((k', v) # d) k = (if key_eq k' k then Some v else dict_lookup d k)"

text \<open>
  \<open>d[k] = v\<close> on a dict: an existing entry keeps its place and its key object, a new
  key is appended.
\<close>

fun dict_store :: "(pyval \<times> pyval) list \<Rightarrow> pyval \<Rightarrow> pyval \<Rightarrow> (pyval \<times> pyval) list" where
  "dict_store [] k v = [(k, v)]"
| "dict_store ((k', v') # d) k v =
     (if key_eq k' k then (k', v) # d else (k', v') # dict_store d k v)"


text \<open>
  General equality, as list membership uses it: lists are equal elementwise, dicts when
  they have the same number of entries and every entry of one has an equal one in the
  other.
\<close>

fun py_eq :: "pyval \<Rightarrow> pyval \<Rightarrow> bool" where
  "py_eq (PList xs) (PList ys) = list_all2 py_eq xs ys"
| "py_eq (PDict d) (PDict e) =
     (length d = length e \<and>
      (\<forall>(k, v) \<in> set d. \<exists>(k', v') \<in> set e. py_eq k k' \<and> py_eq v v'))"
| "py_eq (PList xs) b = False"
| "py_eq (PDict d) b = False"
| "py_eq a (PList ys) = False"
| "py_eq a (PDict e) = False"
| "py_eq a b = key_eq a b"

subsection \<open>Subscripts, membership and addition\<close>

text \<open>A list or string index: negative indices count from the end.\<close>

definition py_index :: "nat \<Rightarrow> int \<Rightarrow> nat option" where
  "py_index n i =
     (let j = (if i < 0 then int n + i else i)
      in if 0 \<le> j \<and> j < int n then Some (nat j) else None)"

fun as_index :: "pyval \<Rightarrow> int option" where
  "as_index (PInt i) = Some i"
| "as_index (PBool b) = Some (if b then 1 else 0)"
| "as_index v = None"

text \<open>\<open>obj[key]\<close>\<close>

fun py_getitem :: "pyval \<Rightarrow> pyval \<Rightarrow> py_error + pyval" where
  "py_getitem (PDict d) k =
     (if \<not> hashable k then Inl TypeError
      else case dict_lookup d k of None \<Rightarrow> Inl KeyError | Some v \<Rightarrow> Inr v)"
| "py_getitem (PList xs) k =
     (case as_index k of
        None \<Rightarrow> Inl TypeError
      | Some i \<Rightarrow> (case py_index (length xs) i of
                    None \<Rightarrow> Inl IndexError
                  | Some j \<Rightarrow> Inr (xs ! j)))"
| "py_getitem (PStr s) k =
     (case as_index k of
        None \<Rightarrow> Inl TypeError
      | Some i \<Rightarrow> (case py_index (length s) i of
                    None \<Rightarrow> Inl IndexError
                  | Some j \<Rightarrow> Inr (PStr [s ! j])))"
| "py_getitem v k = Inl TypeError"

text \<open>\<open>obj[key] = v\<close>\<close>

fun py_setitem :: "pyval \<Rightarrow> pyval \<Rightarrow> pyval \<Rightarrow> py_error + pyval" where
  "py_setitem (PDict d) k v =
     (if \<not> hashable k then Inl TypeError else Inr (PDict (dict_store d k v)))"
| "py_setitem (PList xs) k v =
     (case as_index k of
        None \<Rightarrow> Inl TypeError
      | Some i \<Rightarrow> (case py_index (length xs) i of
                    None \<Rightarrow> Inl IndexError
                  | Some j \<Rightarrow> Inr (PList (xs[j := v]))))"
| "py_setitem obj k v = Inl TypeError"

text \<open>\<open>x in obj\<close>\<close>

fun is_infix :: "string \<Rightarrow> string \<Rightarrow> bool" where
  "is_infix p [] = (p = [])"
| "is_infix p (c # s) = (take (length p) (c # s) = p \<or> is_infix p s)"

fun py_contains :: "pyval \<Rightarrow> pyval \<Rightarrow> py_error + bool" where
  "py_contains (PDict d) x =
     (if \<not> hashable x then Inl TypeError else Inr (dict_lookup d x \<noteq> None))"
| "py_contains (PList xs) x = Inr (\<exists>y \<in> set xs. py_eq y x)"
| "py_contains (PStr s) x = (case x of PStr p \<Rightarrow> Inr (is_infix p s) | _ \<Rightarrow> Inl TypeError)"
| "py_contains obj x = Inl TypeError"

text \<open>\<open>v + n\<close> for an int \<open>n\<close>: defined on numbers only.\<close>

fun py_add_int :: "pyval \<Rightarrow> int \<Rightarrow> py_error + pyval" where
  "py_add_int (PInt m) n = Inr (PInt (m + n))"
| "py_add_int (PBool b) n = Inr (PInt ((if b then 1 else 0) + n))"
| "py_add_int v n = Inl TypeError"

text \<open>
  \<open>obj[key] += n\<close>: the item is read, the sum formed, the item stored; a failure at
  any of the three leaves \<open>obj\<close> as it was.
\<close>

definition py_iadd_item :: "pyval \<Rightarrow> pyval \<Rightarrow> int \<Rightarrow> py_error + pyval" where
  "py_iadd_item obj k n =
     (case py_getitem obj k of
        Inl e \<Rightarrow> Inl e
      | Inr v \<Rightarrow> (case py_add_int v n of
                   Inl e \<Rightarrow> Inl e
                 | Inr v' \<Rightarrow> py_setitem obj k v'))"

text \<open>
  \<open>len(text.split())\<close>: the number of maximal runs of non-whitespace characters.
  Only a str has \<open>split\<close>. Characters are code points below 256.
\<close>

definition is_space :: "char \<Rightarrow> bool" where
  "is_space c = (let n = of_char c :: nat
                 in (9 \<le> n \<and> n \<le> 13) \<or> (28 \<le> n \<and> n \<le> 32) \<or> n = 133 \<or> n = 160)"

fun split_words :: "string \<Rightarrow> string \<Rightarrow> string list" where
  "split_words cur [] = (if cur = [] then [] else [cur])"
| "split_words cur (c # s) =
     (if is_space c then (if cur = [] then split_words [] s else cur # split_words [] s)
      else split_words (cur @ [c]) s)"

definition str_split :: "string \<Rightarrow> string list" where
  "str_split s = split_words [] s"

fun py_split_len :: "pyval \<Rightarrow> py_error + int" where
  "py_split_len (PStr s) = Inr (int (length (str_split s)))"
| "py_split_len v = Inl AttributeError"

text \<open>\<open>d.get(k, default)\<close>: only a dict has \<open>get\<close>.\<close>

fun py_get :: "pyval \<Rightarrow> string \<Rightarrow> pyval \<Rightarrow> py_error + pyval" where
  "py_get (PDict d) k dflt =
     Inr (case dict_lookup d (PStr k) of None \<Rightarrow> dflt | Some v \<Rightarrow> v)"
| "py_get v k dflt = Inl AttributeError"

section \<open>The datetime library\<close>

text \<open>
  \<open>datetime\<close> belongs to the standard library, not to the program. Its values are a
  type parameter \<open>'t\<close> and the three operations the program calls are the fields of a
  record: \<open>t.isoformat()\<close>, \<open>datetime.fromisoformat(s)\<close> (\<open>None\<close> when it raises
  \<open>ValueError\<close>) and \<open>t.strftime("%Y%m%d_%H%M%S")\<close>. Each \<open>datetime.now()\<close> is a
  clock reading passed in by the caller.
\<close>

record 't dtlib =
  isoformat :: "'t \<Rightarrow> string"
  fromisoformat :: "string \<Rightarrow> 't option"
  strftime_id :: "'t \<Rightarrow> string"

text \<open>\<open>datetime.fromisoformat(v)\<close> on a Python value: a non-str argument is a \<open>TypeError\<close>.\<close>

fun py_fromisoformat :: "'t dtlib \<Rightarrow> pyval \<Rightarrow> py_error + 't" where
  "py_fromisoformat L (PStr s) =
     (case fromisoformat L s of None \<Rightarrow> Inl ValueError | Some t \<Rightarrow> Inr t)"
| "py_fromisoformat L v = Inl TypeError"

section \<open>VoiceMessage\<close>

record 't VoiceMessage =
  "text" :: pyval
  language :: pyval
  is_outgoing :: pyval
  translation :: pyval
  timestamp :: 't

definition to_dict :: "'t dtlib \<Rightarrow> 't VoiceMessage \<Rightarrow> pyval" where
  "to_dict L m = PDict
     [(PStr ''text'', text m),
      (PStr ''language'', language m),
      (PStr ''is_outgoing'', is_outgoing m),
      (PStr ''translation'', translation m),
      (PStr ''timestamp'', PStr (isoformat L (timestamp m)))]"

text \<open>
  \<open>from_dict\<close> builds the message with the clock reading \<open>now\<close> as its timestamp and
  then overwrites the timestamp when the record has one that parses. Only \<open>ValueError\<close>
  is caught there.
\<close>

definition from_dict :: "'t dtlib \<Rightarrow> 't \<Rightarrow> pyval \<Rightarrow> py_error + 't VoiceMessage" where
  "from_dict L now data =
     (case py_get data ''text'' (PStr []) of Inl e \<Rightarrow> Inl e | Inr tx \<Rightarrow>
      case py_get data ''language'' (PStr ''en'') of Inl e \<Rightarrow> Inl e | Inr lg \<Rightarrow>
      case py_get data ''is_outgoing'' (PBool False) of Inl e \<Rightarrow> Inl e | Inr og \<Rightarrow>
      case py_get data ''translation'' PNone of Inl e \<Rightarrow> Inl e | Inr tr \<Rightarrow>
      let message = \<lparr>text = tx, language = lg, is_outgoing = og, translation = tr,
                     timestamp = now\<rparr>
      in case py_contains data (PStr ''timestamp'') of
           Inl e \<Rightarrow> Inl e
         | Inr False \<Rightarrow> Inr message
         | Inr True \<Rightarrow>
             (case py_getitem data (PStr ''timestamp'') of
                Inl e \<Rightarrow> Inl e
              | Inr v \<Rightarrow>
                  (case py_fromisoformat L v of
                     Inr t \<Rightarrow> Inr (message\<lparr>timestamp := t\<rparr>)
                   | Inl ValueError \<Rightarrow> Inr message
                   | Inl e \<Rightarrow> Inl e)))"

section \<open>SessionManager\<close>

record 't SessionManager =
  messages :: "'t VoiceMessage list"
  session_id :: pyval
  start_time :: 't
  user_languages :: pyval
  stats :: pyval

definition fresh_stats :: pyval where
  "fresh_stats = PDict
     [(PStr ''total_messages'', PInt 0),
      (PStr ''outgoing_messages'', PInt 0),
      (PStr ''incoming_messages'', PInt 0),
      (PStr ''languages'', PDict []),
      (PStr ''word_count'', PInt 0)]"

text \<open>
  \<open>__init__\<close> and \<open>clear\<close> read the clock twice: once for the session id, once for
  the start time.
\<close>

definition SessionManager_init :: "'t dtlib \<Rightarrow> 't \<Rightarrow> 't \<Rightarrow> 't SessionManager" where
  "SessionManager_init L now1 now2 =
     \<lparr>messages = [],
      session_id = PStr (strftime_id L now1),
      start_time = now2,
      user_languages = PDict [],
      stats = fresh_stats\<rparr>"

definition clear :: "'t dtlib \<Rightarrow> 't \<Rightarrow> 't \<Rightarrow> 't SessionManager \<Rightarrow> 't SessionManager" where
  "clear L now1 now2 s =
     s\<lparr>messages := [],
       stats := fresh_stats,
       session_id := PStr (strftime_id L now1),
       start_time := now2\<rparr>"

subsection \<open>add_message\<close>

text \<open>
  The statistics are updated by five statements, in the order of the source. A statement
  that raises leaves \<open>stats\<close> as the statements before it made it, and the message is
  already appended by then.
\<close>

fun run_steps :: "(pyval \<Rightarrow> py_error + pyval) list \<Rightarrow> pyval \<Rightarrow> py_error option \<times> pyval" where
  "run_steps [] st = (None, st)"
| "run_steps (f # fs) st =
     (case f st of Inl e \<Rightarrow> (Some e, st) | Inr st' \<Rightarrow> run_steps fs st')"

text \<open>\<open>self.stats[key] += n\<close>\<close>

definition bump_stat :: "string \<Rightarrow> int \<Rightarrow> pyval \<Rightarrow> py_error + pyval" where
  "bump_stat key n st = py_iadd_item st (PStr key) n"

text \<open>
  \<open>if message.is_outgoing: self.stats["outgoing_messages"] += 1\<close>
  \<open>else: self.stats["incoming_messages"] += 1\<close>
\<close>

definition bump_direction :: "'t VoiceMessage \<Rightarrow> pyval \<Rightarrow> py_error + pyval" where
  "bump_direction m st =
     (if truthy (is_outgoing m) then bump_stat ''outgoing_messages'' 1 st
      else bump_stat ''incoming_messages'' 1 st)"

text \<open>
  \<open>if message.language not in self.stats["languages"]:\<close>
  \<open>    self.stats["languages"][message.language] = 0\<close>
  The inner object is mutated in place, so \<open>stats\<close> holds the updated one.
\<close>

definition init_language :: "'t VoiceMessage \<Rightarrow> pyval \<Rightarrow> py_error + pyval" where
  "init_language m st =
     (case py_getitem st (PStr ''languages'') of
        Inl e \<Rightarrow> Inl e
      | Inr langs \<Rightarrow>
          (case py_contains langs (language m) of
             Inl e \<Rightarrow> Inl e
           | Inr True \<Rightarrow> Inr st
           | Inr False \<Rightarrow>
               (case py_setitem langs (language m) (PInt 0) of
                  Inl e \<Rightarrow> Inl e
                | Inr langs' \<Rightarrow> py_setitem st (PStr ''languages'') langs')))"

text \<open>\<open>self.stats["languages"][message.language] += 1\<close>\<close>

definition bump_language :: "'t VoiceMessage \<Rightarrow> pyval \<Rightarrow> py_error + pyval" where
  "bump_language m st =
     (case py_getitem st (PStr ''languages'') of
        Inl e \<Rightarrow> Inl e
      | Inr langs \<Rightarrow>
          (case py_iadd_item langs (language m) 1 of
             Inl e \<Rightarrow> Inl e
           | Inr langs' \<Rightarrow> py_setitem st (PStr ''languages'') langs'))"

text \<open>
  \<open>self.stats["word_count"] += len(message.text.split())\<close>: the item is read before
  the right-hand side is evaluated.
\<close>

definition bump_word_count :: "'t VoiceMessage \<Rightarrow> pyval \<Rightarrow> py_error + pyval" where
  "bump_word_count m st =
     (case py_getitem st (PStr ''word_count'') of
        Inl e \<Rightarrow> Inl e
      | Inr v \<Rightarrow>
          (case py_split_len (text m) of
             Inl e \<Rightarrow> Inl e
           | Inr n \<Rightarrow>
               (case py_add_int v n of
                  Inl e \<Rightarrow> Inl e
                | Inr v' \<Rightarrow> py_setitem st (PStr ''word_count'') v')))"

definition add_message ::
  "'t VoiceMessage \<Rightarrow> 't SessionManager \<Rightarrow> (py_error + 't VoiceMessage) \<times> 't SessionManager" where
  "add_message m s =
     (let s1 = s\<lparr>messages := messages s @ [m]\<rparr>;
          (err, st) = run_steps
             [bump_stat ''total_messages'' 1,
              bump_direction m,
              init_language m,
              bump_language m,
              bump_word_count m] (stats s1)
      in (case err of Some e \<Rightarrow> Inl e | None \<Rightarrow> Inr m, s1\<lparr>stats := st\<rparr>))"

subsection \<open>load_session\<close>

text \<open>\<open>for x in v\<close>: a list yields its items, a str its characters, a dict its keys.\<close>

fun py_iter :: "pyval \<Rightarrow> py_error + pyval list" where
  "py_iter (PList xs) = Inr xs"
| "py_iter (PStr s) = Inr (map (\<lambda>c. PStr [c]) s)"
| "py_iter (PDict d) = Inr (map fst d)"
| "py_iter v = Inl TypeError"

text \<open>
  The loop over the stored messages. \<open>clock i\<close> is the clock reading taken when the
  \<open>i\<close>-th message is constructed. A record that \<open>from_dict\<close> rejects ends the loop
  with the messages appended so far.
\<close>

fun load_messages ::
  "'t dtlib \<Rightarrow> (nat \<Rightarrow> 't) \<Rightarrow> nat \<Rightarrow> pyval list \<Rightarrow> 't SessionManager
     \<Rightarrow> py_error option \<times> 't SessionManager" where
  "load_messages L clock i [] s = (None, s)"
| "load_messages L clock i (msg_data # rest) s =
     (case from_dict L (clock i) msg_data of
        Inl e \<Rightarrow> (Some e, s)
      | Inr m \<Rightarrow> load_messages L clock (Suc i) rest (s\<lparr>messages := messages s @ [m]\<rparr>))"

text \<open>
  The body of the \<open>try\<close> block once \<open>json.load\<close> has returned \<open>session_data\<close>. The
  result pairs the exception that left the block, if any, with the state at that point.
\<close>

definition load_body ::
  "'t dtlib \<Rightarrow> (nat \<Rightarrow> 't) \<Rightarrow> pyval \<Rightarrow> 't SessionManager
     \<Rightarrow> py_error option \<times> 't SessionManager" where
  "load_body L clock session_data s =
     (let s1 = s\<lparr>messages := []\<rparr> in
      case py_get session_data ''session_id'' (session_id s1) of
        Inl e \<Rightarrow> (Some e, s1)
      | Inr sid \<Rightarrow>
     (let s2 = s1\<lparr>session_id := sid\<rparr> in
      case py_get session_data ''start_time'' (PStr (isoformat L (start_time s2))) of
        Inl e \<Rightarrow> (Some e, s2)
      | Inr st \<Rightarrow>
     (case (case py_fromisoformat L st of
              Inr t \<Rightarrow> Inr (s2\<lparr>start_time := t\<rparr>)
            | Inl ValueError \<Rightarrow> Inr s2
            | Inl e \<Rightarrow> Inl e) of
        Inl e \<Rightarrow> (Some e, s2)
      | Inr s3 \<Rightarrow>
     (case py_get session_data ''user_languages'' (PDict []) of
        Inl e \<Rightarrow> (Some e, s3)
      | Inr ul \<Rightarrow>
     (let s4 = s3\<lparr>user_languages := ul\<rparr> in
      case py_get session_data ''stats'' (stats s4) of
        Inl e \<Rightarrow> (Some e, s4)
      | Inr sts \<Rightarrow>
     (let s5 = s4\<lparr>stats := sts\<rparr> in
      case py_get session_data ''messages'' (PList []) of
        Inl e \<Rightarrow> (Some e, s5)
      | Inr ms \<Rightarrow>
     (case py_iter ms of
        Inl e \<Rightarrow> (Some e, s5)
      | Inr items \<Rightarrow> load_messages L clock 0 items s5)))))))"

text \<open>
  \<open>file\<close> is what \<open>open\<close> and \<open>json.load\<close> produce for the path: \<open>None\<close> when
  either raises (missing or unreadable file, text that is not JSON), the parsed value
  otherwise. Every exception is caught and turned into \<open>False\<close>; the state is not
  restored.
\<close>

definition load_session ::
  "'t dtlib \<Rightarrow> (nat \<Rightarrow> 't) \<Rightarrow> pyval option \<Rightarrow> 't SessionManager \<Rightarrow> bool \<times> 't SessionManager" where
  "load_session L clock file s =
     (case file of
        None \<Rightarrow> (False, s)
      | Some session_data \<Rightarrow>
          (case load_body L clock session_data s of
             (None, s') \<Rightarrow> (True, s')
           | (Some e, s') \<Rightarrow> (False, s')))"

subsection \<open>save_session and export_session\<close>

text \<open>
  The file system is a type parameter \<open>'fs\<close>. What the two operations need from their
  surroundings is gathered in one record: the default file names (they depend on the
  configuration and the home directory), \<open>Path.mkdir\<close>, writing a JSON document
  (\<open>open\<close> followed by \<open>json.dump\<close>), and the five \<open>_export_*\<close> methods, each of
  which catches every exception of its own and answers with a bool.
\<close>

record ('t, 'fs) env =
  sessions_dir :: string
  export_dir :: string
  session_file :: "pyval \<Rightarrow> string"
  export_file :: "pyval \<Rightarrow> string \<Rightarrow> string"
  mkdir :: "string \<Rightarrow> 'fs \<Rightarrow> py_error option \<times> 'fs"
  dump_json :: "string \<Rightarrow> pyval \<Rightarrow> 'fs \<Rightarrow> py_error option \<times> 'fs"
  export_text :: "'t SessionManager \<Rightarrow> string \<Rightarrow> 'fs \<Rightarrow> bool \<times> 'fs"
  export_html :: "'t SessionManager \<Rightarrow> string \<Rightarrow> 'fs \<Rightarrow> bool \<times> 'fs"
  export_json :: "'t SessionManager \<Rightarrow> string \<Rightarrow> 'fs \<Rightarrow> bool \<times> 'fs"
  export_pdf :: "'t SessionManager \<Rightarrow> string \<Rightarrow> 'fs \<Rightarrow> bool \<times> 'fs"
  export_csv :: "'t SessionManager \<Rightarrow> string \<Rightarrow> 'fs \<Rightarrow> bool \<times> 'fs"

definition session_payload :: "'t dtlib \<Rightarrow> 't \<Rightarrow> 't SessionManager \<Rightarrow> pyval" where
  "session_payload L now s = PDict
     [(PStr ''session_id'', session_id s),
      (PStr ''start_time'', PStr (isoformat L (start_time s))),
      (PStr ''end_time'', PStr (isoformat L now)),
      (PStr ''stats'', stats s),
      (PStr ''user_languages'', user_languages s),
      (PStr ''messages'', PList (map (to_dict L) (messages s)))]"

text \<open>
  The path to write to: the one given, or the default file in the configured directory,
  which is made first. The error, if any, comes with the file system as \<open>mkdir\<close>
  left it.
\<close>

definition save_path ::
  "('t, 'fs) env \<Rightarrow> string option \<Rightarrow> 't SessionManager \<Rightarrow> 'fs \<Rightarrow> (py_error + string) \<times> 'fs" where
  "save_path E path s fs =
     (case path of
        Some p \<Rightarrow> (Inr p, fs)
      | None \<Rightarrow>
          (case mkdir E (sessions_dir E) fs of
             (Some e, fs') \<Rightarrow> (Inl e, fs')
           | (None, fs') \<Rightarrow> (Inr (session_file E (session_id s)), fs')))"

definition save_session ::
  "'t dtlib \<Rightarrow> ('t, 'fs) env \<Rightarrow> 't \<Rightarrow> string option \<Rightarrow> 't SessionManager \<Rightarrow> 'fs \<Rightarrow> bool \<times> 'fs" where
  "save_session L E now path s fs =
     (if messages s = [] then (False, fs)
      else
        (case save_path E path s fs of
           (Inl e, fs') \<Rightarrow> (False, fs')
         | (Inr p, fs') \<Rightarrow>
             (case dump_json E p (session_payload L now s) fs' of
                (Some e, fs'') \<Rightarrow> (False, fs'')
              | (None, fs'') \<Rightarrow> (True, fs''))))"

definition extension :: "string \<Rightarrow> string" where
  "extension format_type =
     (if format_type = ''txt'' then ''.txt''
      else if format_type = ''html'' then ''.html''
      else if format_type = ''json'' then ''.json''
      else if format_type = ''pdf'' then ''.pdf''
      else if format_type = ''csv'' then ''.csv''
      else ''.txt'')"

definition export_path ::
  "('t, 'fs) env \<Rightarrow> string \<Rightarrow> string option \<Rightarrow> 't SessionManager \<Rightarrow> 'fs
     \<Rightarrow> (py_error + string) \<times> 'fs" where
  "export_path E format_type path s fs =
     (case path of
        Some p \<Rightarrow> (Inr p, fs)
      | None \<Rightarrow>
          (case mkdir E (export_dir E) fs of
             (Some e, fs') \<Rightarrow> (Inl e, fs')
           | (None, fs') \<Rightarrow>
               (Inr (export_file E (session_id s) (extension format_type)), fs')))"

definition dispatch ::
  "('t, 'fs) env \<Rightarrow> string \<Rightarrow> 't SessionManager \<Rightarrow> string \<Rightarrow> 'fs \<Rightarrow> bool \<times> 'fs" where
  "dispatch E format_type =
     (if format_type = ''txt'' then export_text E
      else if format_type = ''html'' then export_html E
      else if format_type = ''json'' then export_json E
      else if format_type = ''pdf'' then export_pdf E
      else if format_type = ''csv'' then export_csv E
      else export_text E)"

text \<open>
  In \<open>export_session\<close> the directory is made outside the \<open>try\<close> block, so a failing
  \<open>mkdir\<close> leaves the method as an exception.
\<close>

definition export_session ::
  "('t, 'fs) env \<Rightarrow> string \<Rightarrow> string option \<Rightarrow> 't SessionManager \<Rightarrow> 'fs
     \<Rightarrow> (py_error + bool) \<times> 'fs" where
  "export_session E format_type path s fs =
     (if messages s = [] then (Inr False, fs)
      else
        (case export_path E format_type path s fs of
           (Inl e, fs') \<Rightarrow> (Inl e, fs')
         | (Inr p, fs') \<Rightarrow>
             (case dispatch E format_type s p fs' of (ok, fs'') \<Rightarrow> (Inr ok, fs''))))"

section \<open>Translators\<close>

text \<open>
  A callee outside the program (the googletrans client, the wrapped translator) is an
  object that answers a call from its arguments and the number of calls made before,
  and records every call: what \<open>unittest.mock\<close> observes in the tests.
\<close>

type_synonym call = "string \<times> string \<times> string"

record 'r callee =
  reply :: "nat \<Rightarrow> call \<Rightarrow> 'r"
  calls :: "call list"

definition invoke :: "'r callee \<Rightarrow> call \<Rightarrow> 'r \<times> 'r callee" where
  "invoke c a = (reply c (length (calls c)) a, c\<lparr>calls := calls c @ [a]\<rparr>)"

subsection \<open>GoogleTranslator\<close>

text \<open>
  \<open>translator\<close> is the googletrans client. A call \<open>translate(text, src, dest)\<close> is
  recorded as \<open>(text, src, dest)\<close> and either raises or yields \<open>result.text\<close>.
\<close>

record GoogleTranslator =
  translator :: "(py_error + string) callee option"

text \<open>
  \<open>__init__\<close>: the argument is what importing googletrans and constructing its client
  yields; a failure is raised again, so no object exists without a client.
\<close>

definition GoogleTranslator_init ::
  "py_error + (py_error + string) callee \<Rightarrow> py_error + GoogleTranslator" where
  "GoogleTranslator_init client =
     (case client of Inl e \<Rightarrow> Inl e | Inr c \<Rightarrow> Inr \<lparr>translator = Some c\<rparr>)"

definition translate_text ::
  "GoogleTranslator \<Rightarrow> string \<Rightarrow> string \<Rightarrow> string \<Rightarrow> string option \<times> GoogleTranslator" where
  "translate_text g txt target_language source_language =
     (case translator g of
        None \<Rightarrow> (None, g)
      | Some c \<Rightarrow>
          if txt = [] then (None, g)
          else if source_language = target_language \<and> source_language \<noteq> ''auto''
          then (Some txt, g)
          else
            (case invoke c (txt, source_language, target_language) of
               (Inl e, c') \<Rightarrow> (None, g\<lparr>translator := Some c'\<rparr>)
             | (Inr r, c') \<Rightarrow> (Some r, g\<lparr>translator := Some c'\<rparr>)))"

subsection \<open>CachedTranslator\<close>

text \<open>
  The wrapped translator is any \<open>BaseTranslator\<close>: a call
  \<open>translate_text(text, target_language, source_language)\<close> is recorded as
  \<open>(text, target_language, source_language)\<close> and raises or returns an optional
  string. The cache is a dict from \<open>(text, source_language, target_language)\<close> to the
  translation, kept as its list of entries.
\<close>

record CachedTranslator =
  base_translator :: "(py_error + string option) callee"
  cache :: "(call \<times> string) list"
  cache_size :: int

definition CachedTranslator_init ::
  "int \<Rightarrow> (py_error + string option) callee \<Rightarrow> CachedTranslator" where
  "CachedTranslator_init configured base =
     \<lparr>base_translator = base, cache = [], cache_size = configured\<rparr>"

definition cached_translate_text ::
  "CachedTranslator \<Rightarrow> string \<Rightarrow> string \<Rightarrow> string
     \<Rightarrow> (py_error + string option) \<times> CachedTranslator" where
  "cached_translate_text ct txt target_language source_language =
     (if txt = [] then (Inr None, ct)
      else
        (let cache_key = (txt, source_language, target_language) in
         case map_of (cache ct) cache_key of
           Some v \<Rightarrow> (Inr (Some v), ct)
         | None \<Rightarrow>
             (case invoke (base_translator ct) (txt, target_language, source_language) of
                (Inl e, b') \<Rightarrow> (Inl e, ct\<lparr>base_translator := b'\<rparr>)
              | (Inr None, b') \<Rightarrow> (Inr None, ct\<lparr>base_translator := b'\<rparr>)
              | (Inr (Some r), b') \<Rightarrow>
                  (Inr (Some r),
                   if r \<noteq> [] \<and> int (length (cache ct)) < cache_size ct
                   then ct\<lparr>base_translator := b', cache := cache ct @ [(cache_key, r)]\<rparr>
                   else ct\<lparr>base_translator := b'\<rparr>))))"

subsection \<open>TranslationCache\<close>

text \<open>
  The tests import a class \<open>TranslationCache\<close> with \<open>get\<close>, \<open>set\<close>, \<open>clear\<close> and
  \<open>get_stats\<close> from the translator module; the module does not define it.
\<close>

record TranslationCache =
  entries :: "(call \<times> string) list"
  max_size :: nat
  hits :: nat
  misses :: nat

record cache_stats =
  size :: nat
  stat_hits :: nat
  stat_misses :: nat
  hit_rate :: rat

text \<open>Modelled from the spec: \<open>TranslationCache\<close> is missing; a new cache is empty with both counters at zero.\<close>

definition TranslationCache_init :: "nat \<Rightarrow> TranslationCache" where
  "TranslationCache_init capacity = \<lparr>entries = [], max_size = capacity, hits = 0, misses = 0\<rparr>"

text \<open>Modelled from the spec: \<open>TranslationCache.get\<close> is missing; an exact-match lookup that returns \<open>None\<close> and increments the miss counter if the key is absent, returns the cached value and increments the hit counter if it is present.\<close>

definition cache_get :: "TranslationCache \<Rightarrow> call \<Rightarrow> string option \<times> TranslationCache" where
  "cache_get c k =
     (case map_of (entries c) k of
        None \<Rightarrow> (None, c\<lparr>misses := misses c + 1\<rparr>)
      | Some v \<Rightarrow> (Some v, c\<lparr>hits := hits c + 1\<rparr>))"

text \<open>Modelled from the spec: \<open>TranslationCache.set\<close> is missing; it inserts the mapping only if the current size is below the capacity and is a no-op otherwise.\<close>

definition cache_set :: "TranslationCache \<Rightarrow> call \<Rightarrow> string \<Rightarrow> TranslationCache" where
  "cache_set c k v =
     (if length (entries c) < max_size c
      then c\<lparr>entries := AList.update k v (entries c)\<rparr>
      else c)"

text \<open>Modelled from the spec: \<open>TranslationCache.clear\<close> is missing; it empties all entries and does not reset the counters.\<close>

definition cache_clear :: "TranslationCache \<Rightarrow> TranslationCache" where
  "cache_clear c = c\<lparr>entries := []\<rparr>"

text \<open>Modelled from the spec: \<open>TranslationCache.get_stats\<close> is missing; \<open>hit_rate = hits / (hits + misses) * 100\<close>, defined as 0 when no lookups have occurred yet. The quotient is taken in the rationals.\<close>

definition get_stats :: "TranslationCache \<Rightarrow> cache_stats" where
  "get_stats c =
     \<lparr>size = length (entries c),
      stat_hits = hits c,
      stat_misses = misses c,
      hit_rate = (if hits c + misses c = 0 then 0
                  else of_nat (hits c) / of_nat (hits c + misses c) * 100)\<rparr>"

text \<open>A history of calls on one cache, and the answers of its lookups in order.\<close>

datatype cache_op = Get call | Set call string | Clear

fun run_cache :: "cache_op list \<Rightarrow> TranslationCache \<Rightarrow> string option list \<times> TranslationCache" where
  "run_cache [] c = ([], c)"
| "run_cache (Get k # ops) c =
     (case cache_get c k of (r, c') \<Rightarrow>
        (case run_cache ops c' of (rs, c'') \<Rightarrow> (r # rs, c'')))"
| "run_cache (Set k v # ops) c = run_cache ops (cache_set c k v)"
| "run_cache (Clear # ops) c = run_cache ops (cache_clear c)"

section \<open>Sequences of calls\<close>

text \<open>Messages added one after the other; an exception is left to the caller.\<close>

fun add_messages :: "'t VoiceMessage list \<Rightarrow> 't SessionManager \<Rightarrow> 't SessionManager" where
  "add_messages [] s = s"
| "add_messages (m # ms) s = add_messages ms (snd (add_message m s))"

text \<open>
  Requests \<open>(text, target_language, source_language)\<close> served one after the other by
  one caching translator.
\<close>

fun serve :: "call list \<Rightarrow> CachedTranslator \<Rightarrow> CachedTranslator" where
  "serve [] ct = ct"
| "serve ((txt, tgt, src) # rs) ct = serve rs (snd (cached_translate_text ct txt tgt src))"

section \<open>What a recomputation over the message log yields\<close>

text \<open>
  The statistics as the specification defines them from the log alone: the number of
  messages, of those whose \<open>is_outgoing\<close> is true and false, of those whose language
  is \<open>l\<close>, and the sum of the numbers of whitespace-separated words.
\<close>

definition words_in :: "'t VoiceMessage \<Rightarrow> int" where
  "words_in m = (case text m of PStr s \<Rightarrow> int (length (str_split s)) | _ \<Rightarrow> 0)"

definition count_total :: "'t VoiceMessage list \<Rightarrow> int" where
  "count_total ms = int (length ms)"

definition count_outgoing :: "'t VoiceMessage list \<Rightarrow> int" where
  "count_outgoing ms = int (length (filter (\<lambda>m. truthy (is_outgoing m)) ms))"

definition count_incoming :: "'t VoiceMessage list \<Rightarrow> int" where
  "count_incoming ms = int (length (filter (\<lambda>m. \<not> truthy (is_outgoing m)) ms))"

definition count_language :: "'t VoiceMessage list \<Rightarrow> pyval \<Rightarrow> int" where
  "count_language ms l = int (length (filter (\<lambda>m. key_eq (language m) l) ms))"

definition count_words :: "'t VoiceMessage list \<Rightarrow> int" where
  "count_words ms = sum_list (map words_in ms)"

text \<open>
  A message as the data model has it: \<open>text\<close> and \<open>language\<close> are strings.
\<close>

fun is_str :: "pyval \<Rightarrow> bool" where
  "is_str (PStr s) = True"
| "is_str v = False"

definition typed_message :: "'t VoiceMessage \<Rightarrow> bool" where
  "typed_message m = (is_str (text m) \<and> is_str (language m))"

text \<open>
  The entry of the per-language dict for \<open>l\<close>: a language no message has is not a key.
\<close>

definition language_entry :: "pyval \<Rightarrow> pyval \<Rightarrow> pyval option" where
  "language_entry st l =
     (case py_getitem st (PStr ''languages'') of
        Inr (PDict d) \<Rightarrow> dict_lookup d l
      | _ \<Rightarrow> None)"

section \<open>An instance of the datetime library\<close>

text \<open>
  Naive datetimes with microseconds, written by \<open>isoformat\<close> as
  \<open>YYYY-MM-DDTHH:MM:SS\<close>, followed by \<open>.ffffff\<close> when the microseconds are not zero,
  and a parser that accepts these two layouts.
\<close>

record datetime =
  year :: nat
  month :: nat
  day :: nat
  hour :: nat
  minute :: nat
  second :: nat
  microsecond :: nat

definition digit_char :: "nat \<Rightarrow> char" where
  "digit_char d = ''0123456789'' ! (d mod 10)"

text \<open>\<open>n\<close> in two, four and six decimal digits, zero-padded.\<close>

definition zpad2 :: "nat \<Rightarrow> string" where
  "zpad2 n = [digit_char (n div 10 mod 10), digit_char (n mod 10)]"

definition zpad4 :: "nat \<Rightarrow> string" where
  "zpad4 n = zpad2 (n div 100) @ zpad2 (n mod 100)"

definition zpad6 :: "nat \<Rightarrow> string" where
  "zpad6 n = zpad2 (n div 10000) @ zpad4 (n mod 10000)"

definition digit_of :: "char \<Rightarrow> nat option" where
  "digit_of c = map_of (zip ''0123456789'' [0, 1, 2, 3, 4, 5, 6, 7, 8, 9]) c"

fun read_nat :: "nat \<Rightarrow> string \<Rightarrow> nat option" where
  "read_nat acc [] = Some acc"
| "read_nat acc (c # cs) =
     (case digit_of c of None \<Rightarrow> None | Some d \<Rightarrow> read_nat (10 * acc + d) cs)"

definition days_in_month :: "nat \<Rightarrow> nat \<Rightarrow> nat" where
  "days_in_month y m =
     (if m = 2 then (if y mod 4 = 0 \<and> (y mod 100 \<noteq> 0 \<or> y mod 400 = 0) then 29 else 28)
      else if m = 4 \<or> m = 6 \<or> m = 9 \<or> m = 11 then 30
      else 31)"

definition valid_datetime :: "datetime \<Rightarrow> bool" where
  "valid_datetime t =
     (1 \<le> year t \<and> year t \<le> 9999 \<and> 1 \<le> month t \<and> month t \<le> 12 \<and>
      1 \<le> day t \<and> day t \<le> days_in_month (year t) (month t) \<and>
      hour t < 24 \<and> minute t < 60 \<and> second t < 60 \<and> microsecond t < 1000000)"

definition naive_isoformat :: "datetime \<Rightarrow> string" where
  "naive_isoformat t =
     zpad4 (year t) @ ''-'' @ zpad2 (month t) @ ''-'' @ zpad2 (day t) @ ''T'' @
     zpad2 (hour t) @ '':'' @ zpad2 (minute t) @ '':'' @ zpad2 (second t) @
     (if microsecond t = 0 then [] else ''.'' @ zpad6 (microsecond t))"

definition naive_strftime_id :: "datetime \<Rightarrow> string" where
  "naive_strftime_id t =
     zpad4 (year t) @ zpad2 (month t) @ zpad2 (day t) @ ''_'' @
     zpad2 (hour t) @ zpad2 (minute t) @ zpad2 (second t)"

text \<open>The field of \<open>n\<close> digits that starts at position \<open>i\<close>.\<close>

definition field :: "string \<Rightarrow> nat \<Rightarrow> nat \<Rightarrow> nat option" where
  "field s i n = (if i + n \<le> length s then read_nat 0 (take n (drop i s)) else None)"

definition naive_fromisoformat :: "string \<Rightarrow> datetime option" where
  "naive_fromisoformat s =
     (if (length s = 19 \<or> length s = 26) \<and>
         take 1 (drop 4 s) = ''-'' \<and> take 1 (drop 7 s) = ''-'' \<and> take 1 (drop 10 s) = ''T'' \<and>
         take 1 (drop 13 s) = '':'' \<and> take 1 (drop 16 s) = '':'' \<and>
         (length s = 26 \<longrightarrow> take 1 (drop 19 s) = ''.'')
      then
        (case (field s 0 4, field s 5 2, field s 8 2, field s 11 2, field s 14 2, field s 17 2,
               if length s = 26 then field s 20 6 else Some 0) of
           (Some y, Some mo, Some d, Some h, Some mi, Some sc, Some us) \<Rightarrow>
             (let t = \<lparr>year = y, month = mo, day = d, hour = h, minute = mi, second = sc,
                       microsecond = us\<rparr>
              in if valid_datetime t then Some t else None)
         | _ \<Rightarrow> None)
      else None)"

definition naive :: "datetime dtlib" where
  "naive = \<lparr>isoformat = naive_isoformat, fromisoformat = naive_fromisoformat,
            strftime_id = naive_strftime_id\<rparr>"

definition call_count :: "GoogleTranslator \<Rightarrow> nat" where
  "call_count g = (case translator g of None \<Rightarrow> 0 | Some c \<Rightarrow> length (calls c))"

section \<open>Example data\<close>

text \<open>Two clock readings, the three messages of the specification's scenario, a session.\<close>

definition t1 :: datetime where
  "t1 = \<lparr>year = 2024, month = 3, day = 9, hour = 14, minute = 5, second = 7,
          microsecond = 250\<rparr>"

definition t2 :: datetime where
  "t2 = \<lparr>year = 2024, month = 3, day = 9, hour = 14, minute = 6, second = 0,
          microsecond = 0\<rparr>"

definition msg_gg :: "datetime VoiceMessage" where
  "msg_gg = \<lparr>text = PStr ''gg'', language = PStr ''en'', is_outgoing = PBool True,
              translation = PStr ''bien jugado'', timestamp = t1\<rparr>"

definition msg_nice :: "datetime VoiceMessage" where
  "msg_nice = \<lparr>text = PStr ''nice shot'', language = PStr ''en'', is_outgoing = PBool True,
                translation = PNone, timestamp = t1\<rparr>"

definition msg_buena :: "datetime VoiceMessage" where
  "msg_buena = \<lparr>text = PStr ''buena jugada'', language = PStr ''es'',
                 is_outgoing = PBool False, translation = PNone, timestamp = t2\<rparr>"

definition team_session :: "datetime SessionManager" where
  "team_session =
     \<lparr>messages = [msg_gg],
      session_id = PStr ''20240309_140000'',
      start_time = t1,
      user_languages = PDict [(PStr ''teammate'', PStr ''es'')],
      stats = PDict
        [(PStr ''total_messages'', PInt 1),
         (PStr ''outgoing_messages'', PInt 1),
         (PStr ''incoming_messages'', PInt 0),
         (PStr ''languages'', PDict [(PStr ''en'', PInt 1)]),
         (PStr ''word_count'', PInt 1)]\<rparr>"

text \<open>
  A file system kept in memory as the list of files written, and surroundings in which
  every write succeeds.
\<close>

definition memory_env :: "(datetime, (string \<times> pyval) list) env" where
  "memory_env =
     \<lparr>sessions_dir = ''sessions'',
      export_dir = ''exports'',
      session_file = (\<lambda>sid. ''sessions/session.json''),
      export_file = (\<lambda>sid ext. ''exports/export'' @ ext),
      mkdir = (\<lambda>d fs. (None, fs)),
      dump_json = (\<lambda>p v fs. (None, (p, v) # fs)),
      export_text = (\<lambda>s p fs. (True, (p, PStr ''text'') # fs)),
      export_html = (\<lambda>s p fs. (True, (p, PStr ''html'') # fs)),
      export_json = (\<lambda>s p fs. (True, (p, PStr ''json'') # fs)),
      export_pdf = (\<lambda>s p fs. (False, fs)),
      export_csv = (\<lambda>s p fs. (True, (p, PStr ''csv'') # fs))\<rparr>"

text \<open>A googletrans client that answers every call, and one with no call made yet.\<close>

definition hola_client :: "(py_error + string) callee" where
  "hola_client = \<lparr>reply = (\<lambda>n a. Inr ''hola''), calls = []\<rparr>"

section \<open>Properties\<close>

subsection \<open>clear\<close>

text \<open>
  C10. For every session state, \<open>clear\<close> empties the message log, resets every field
  of the statistics to zero (the per-language dict to the empty one) and assigns the
  session id and the start time from the clock, while the participant-to-language
  mapping is the one the session had before.
\<close>

theorem clear_resets_all_but_user_languages:
  "messages (clear L now1 now2 s) = [] \<and>
   stats (clear L now1 now2 s) = fresh_stats \<and>
   py_getitem (stats (clear L now1 now2 s)) (PStr ''total_messages'') = Inr (PInt 0) \<and>
   py_getitem (stats (clear L now1 now2 s)) (PStr ''outgoing_messages'') = Inr (PInt 0) \<and>
   py_getitem (stats (clear L now1 now2 s)) (PStr ''incoming_messages'') = Inr (PInt 0) \<and>
   py_getitem (stats (clear L now1 now2 s)) (PStr ''languages'') = Inr (PDict []) \<and>
   py_getitem (stats (clear L now1 now2 s)) (PStr ''word_count'') = Inr (PInt 0) \<and>
   session_id (clear L now1 now2 s) = PStr (strftime_id L now1) \<and>
   start_time (clear L now1 now2 s) = now2 \<and>
   user_languages (clear L now1 now2 s) = user_languages s"
  by (simp add: clear_def fresh_stats_def key_eq_def)

theorem clear_resets_all_but_user_languages_witness:
  "messages (clear naive t2 t2 team_session) = [] \<and>
   session_id (clear naive t2 t2 team_session) = PStr ''20240309_140600'' \<and>
   start_time (clear naive t2 t2 team_session) = t2 \<and>
   user_languages (clear naive t2 t2 team_session) = PDict [(PStr ''teammate'', PStr ''es'')]"
  using clear_resets_all_but_user_languages [of naive t2 t2 team_session]
  by (simp add: naive_def naive_strftime_id_def t2_def zpad2_def zpad4_def digit_char_def
      team_session_def)

subsection \<open>save_session and export_session on an empty log\<close>

text \<open>
  C9. Whenever the message log is empty, \<open>save_session\<close> and \<open>export_session\<close>
  return false, raise nothing and leave the file system as it was, for every path and
  every format.
\<close>

theorem empty_log_is_not_written:
  assumes "messages s = []"
  shows "save_session L E now path s fs = (False, fs) \<and>
         export_session E format_type path s fs = (Inr False, fs)"
  using assms by (simp add: save_session_def export_session_def)

theorem empty_log_is_not_written_witness:
  "messages (clear naive t2 t2 team_session) = [] \<and>
   save_session naive memory_env t2 None (clear naive t2 t2 team_session) [] = (False, []) \<and>
   export_session memory_env ''csv'' None (clear naive t2 t2 team_session) [] = (Inr False, [])"
  using empty_log_is_not_written
    [of "clear naive t2 t2 team_session" naive memory_env t2 None "[]" "''csv''"]
  by (simp add: clear_def)

subsection \<open>GoogleTranslator.translate_text\<close>

text \<open>
  C5. For every translator object the constructor returned, every non-empty text and
  every language code other than \<open>auto\<close>, translating from the language to itself
  returns the text unchanged and leaves the client as it was: no call is recorded.
\<close>

theorem same_language_skips_backend:
  assumes "GoogleTranslator_init client = Inr g"
    and "txt \<noteq> []"
    and "lang \<noteq> ''auto''"
  shows "translate_text g txt lang lang = (Some txt, g) \<and>
         call_count (snd (translate_text g txt lang lang)) = call_count g"
  using assms
  by (auto simp: GoogleTranslator_init_def translate_text_def split: sum.splits)

theorem same_language_skips_backend_witness:
  "GoogleTranslator_init (Inr hola_client) = Inr \<lparr>translator = Some hola_client\<rparr> \<and>
   translate_text \<lparr>translator = Some hola_client\<rparr> ''Hello world'' ''en'' ''en''
     = (Some ''Hello world'', \<lparr>translator = Some hola_client\<rparr>) \<and>
   call_count (snd (translate_text \<lparr>translator = Some hola_client\<rparr> ''Hello world'' ''en'' ''en'')) = 0"
  using same_language_skips_backend
    [of "Inr hola_client" "\<lparr>translator = Some hola_client\<rparr>" "''Hello world''" "''en''"]
  by (simp add: GoogleTranslator_init_def call_count_def hola_client_def)

end
